theory Spec2Isabelle
  imports Main
begin

section \<open>Python values and strings\<close>

text \<open>
  The cells of a pandas table, and the first argument of \<open>change_checker\<close>, are Python
  values. The model has strings, integers (unbounded, as Python's are), booleans, the
  float not-a-number (the missing-value marker of pandas) and \<open>None\<close>. A finite float
  with an integer value is identified with that integer (Python's \<open>==\<close> identifies them
  too); fractional floats and the list cells that \<open>relist_item\<close> builds are outside the
  model. A string is the list of the bytes of its UTF-8 encoding.
\<close>

datatype pyval = PStr string | PInt int | PBool bool | PNaN | PNone

datatype error =
    ShapeMismatch  \<comment> \<open>\<open>Exception("These dataframes don't have the same number of rows and columns")\<close>\<close>
  | TypeError
  | OverflowError
  | IndexError
  | KeyError
  | AttributeError
  | ApiError       \<comment> \<open>the remote store does not know the identifier\<close>

definition digit_char :: "nat \<Rightarrow> char" where
  "digit_char d = ''0123456789'' ! d"

function str_nat :: "nat \<Rightarrow> string" where
  "str_nat n = (if n < 10 then [digit_char n] else str_nat (n div 10) @ [digit_char (n mod 10)])"
  by pat_completeness auto
termination
  by (relation "measure id") auto

declare str_nat.simps [simp del]

definition str_int :: "int \<Rightarrow> string" where
  "str_int i = (if i < 0 then CHR ''-'' # str_nat (nat (- i)) else str_nat (nat i))"

text \<open>Python's \<open>str(x)\<close>.\<close>

fun py_str :: "pyval \<Rightarrow> string" where
  "py_str (PStr s) = s"
| "py_str (PInt i) = str_int i"
| "py_str (PBool b) = (if b then ''True'' else ''False'')"
| "py_str PNaN = ''nan''"
| "py_str PNone = ''None''"

definition lower_char :: "char \<Rightarrow> char" where
  "lower_char c =
     (case map_of (zip ''ABCDEFGHIJKLMNOPQRSTUVWXYZ'' ''abcdefghijklmnopqrstuvwxyz'') c of
        Some l \<Rightarrow> l
      | None \<Rightarrow> c)"

text \<open>
  \<open>s.lower()\<close>. Python lowers every cased character of Unicode. The result is used only
  in comparisons with names and options written in ASCII, and the Kelvin sign (U+212A,
  the bytes E2 84 AA), whose lower case is \<open>k\<close>, is the only character outside ASCII whose
  lower case lies in ASCII. So the model lowers the ASCII capitals and the Kelvin sign and
  leaves every other byte: the result is equal to an ASCII string exactly when Python's is.
\<close>

function lower :: "string \<Rightarrow> string" where
  "lower [] = []"
| "lower (c # s) =
     (if c = CHR 0xE2 \<and> take 2 s = [CHR 0x84, CHR 0xAA] then CHR ''k'' # lower (drop 2 s)
      else lower_char c # lower s)"
  by pat_completeness auto
termination
  by (relation "measure length") auto

text \<open>
  \<open>math.isnan(x)\<close> for a value that is not a \<open>str\<close>. The argument is converted to a
  float: what is not a number raises a \<open>TypeError\<close>, and an integer raises an
  \<open>OverflowError\<close> when it rounds (to nearest, ties to even) beyond the largest float
  \<open>2^1024 - 2^971\<close>, that is from \<open>2^1024 - 2^970\<close> on.
\<close>

definition too_large_for_float :: "int \<Rightarrow> bool" where
  "too_large_for_float i = (2 ^ 1024 - 2 ^ 970 \<le> \<bar>i\<bar>)"

fun math_isnan :: "pyval \<Rightarrow> error + bool" where
  "math_isnan PNaN = Inr True"
| "math_isnan (PInt i) = (if too_large_for_float i then Inl OverflowError else Inr False)"
| "math_isnan (PBool b) = Inr False"
| "math_isnan (PStr s) = Inl TypeError"
| "math_isnan PNone = Inl TypeError"

section \<open>The filename grammars\<close>

text \<open>
  The three patterns of \<open>change_checker\<close> use literals, the class \<open>[a-zA-Z0-9]+\<close>,
  optional groups and concatenation. \<open>rmatch r s\<close> lists what can remain of \<open>s\<close> after
  a match of \<open>r\<close> at its start, in the order the backtracking matcher tries them.
\<close>

datatype regex = Lit string | AlnumPlus | Opt regex | Cat "regex list"

definition alnum :: "char \<Rightarrow> bool" where
  "alnum c = (c \<in> set ''abcdefghijklmnopqrstuvwxyzABCDEFGHIJKLMNOPQRSTUVWXYZ0123456789'')"

fun rmatch :: "regex \<Rightarrow> string \<Rightarrow> string list" where
  "rmatch (Lit l) s = (if take (length l) s = l then [drop (length l) s] else [])"
| "rmatch AlnumPlus s = map (\<lambda>k. drop k s) (rev [1 ..< Suc (length (takeWhile alnum s))])"
| "rmatch (Opt r) s = rmatch r s @ [s]"
| "rmatch (Cat []) s = [s]"
| "rmatch (Cat (r # rs)) s = concat (map (rmatch (Cat rs)) (rmatch r s))"

text \<open>\<open>bool(p.match(s))\<close> for a pattern \<open>^r$\<close>: \<open>$\<close> holds at the end of the string and
  before a newline that ends it.\<close>

definition re_match :: "regex \<Rightarrow> string \<Rightarrow> bool" where
  "re_match r s = (\<exists>rest \<in> set (rmatch r s). rest = [] \<or> rest = [CHR 0x0A])"

text \<open>\<open>(_key-(?P<name>[a-zA-Z0-9]+))?\<close>\<close>

definition seg :: "string \<Rightarrow> regex" where
  "seg k = Opt (Cat [Lit (CHR ''_'' # k @ ''-''), AlnumPlus])"

text \<open>\<open>\<^verbatim>\<open>\.nii(\.gz)?\<close>\<close>\<close>

definition nii :: regex where
  "nii = Cat [Lit ''.nii'', Opt (Lit ''.gz'')]"

definition anat1 :: regex where
  "anat1 = Cat [Lit ''sub-'', AlnumPlus, seg ''ses'', seg ''acq'', seg ''ce'', seg ''rec'',
     seg ''run'', Opt (Cat [Lit ''_'', AlnumPlus]), nii]"

definition anat2 :: regex where
  "anat2 = Cat [Lit ''sub-'', AlnumPlus, seg ''ses'', seg ''acq'', seg ''ce'', seg ''rec'',
     seg ''run'', seg ''mod'', Cat [Lit ''_'', Cat [AlnumPlus, nii]]]"

definition func1 :: regex where
  "func1 = Cat [Lit ''sub-'', AlnumPlus, seg ''ses'', seg ''task'', seg ''acq'', seg ''ce'',
     seg ''dir'', seg ''rec'', seg ''run'', seg ''echo'', Opt (Cat [Lit ''_'', AlnumPlus]), nii]"

section \<open>The field rules\<close>

definition drop_down_bool :: "(string \<times> string list) list" where
  "drop_down_bool = [(''ignore'', [''true'', ''false'']), (''valid'', [''true'', ''false''])]"

definition drop_down_single_fields :: "(string \<times> string list) list" where
  "drop_down_single_fields =
     [(''modality'', ['''', ''mr'', ''ct'', ''pet'', ''us'', ''eeg'', ''ieeg'', ''x-ray'',
        ''ecg'', ''meg'', ''nirs''])]"

definition string_fields :: "string list" where
  "string_fields = [''acquisition.label'', ''project.label'', ''error_message'',
     ''subject.label'', ''folder'', ''template'',
     ''intendedfor'', ''mod'', ''path'', ''rec'', ''task'', ''run'']"

text \<open>The messages that \<open>change_checker\<close> appends to \<open>ERROR_MESSAGES\<close>.\<close>

definition boolean_message :: string where
  "boolean_message =
     ''This field accepts booleans, these can only be written as \"True\" or \"False\"!''"

definition drop_down_message :: string where
  "drop_down_message =
     ''This field must match one of the available options in the drop-down menu on the website!''"

definition string_message :: string where
  "string_message = ''This field only accepts strings!''"

definition filename_message :: string where
  "filename_message = ''This field MUST be a BIDS compliant name!''"

definition acquisition_id_message :: string where
  "acquisition_id_message = ''You cannot edit the acquisition ID!''"

text \<open>
  \<open>change_checker user_input column msgs\<close>: \<open>msgs\<close> is the global list \<open>ERROR_MESSAGES\<close>
  before the call; the result is the returned boolean with the list after the call, or
  the exception raised.
\<close>

definition change_checker :: "pyval \<Rightarrow> string \<Rightarrow> string list \<Rightarrow> error + (bool \<times> string list)" where
  "change_checker user_input column msgs =
     (if lower column \<in> set (map fst drop_down_bool) then
        (if lower (py_str user_input) = ''true'' \<or> lower (py_str user_input) = ''false''
         then Inr (True, msgs)
         else Inr (False, msgs @ [boolean_message]))
      else if lower column \<in> set (map fst drop_down_single_fields) then
        (if \<exists>(field, options) \<in> set drop_down_single_fields.
              lower (py_str user_input) \<in> set options
         then Inr (True, msgs)
         else Inr (False, msgs @ [drop_down_message]))
      else if lower column \<in> set string_fields then
        (case (case user_input of PStr s \<Rightarrow> Inr True | _ \<Rightarrow> math_isnan user_input) of
           Inl e \<Rightarrow> Inl e
         | Inr True \<Rightarrow> Inr (True, msgs)
         | Inr False \<Rightarrow> Inr (False, msgs @ [string_message]))
      else if lower column = ''filename'' then
        (if re_match anat1 (py_str user_input) then Inr (True, msgs)
         else if re_match anat2 (py_str user_input) then Inr (True, msgs)
         else if re_match func1 (py_str user_input) then Inr (True, msgs)
         else Inr (False, msgs @ [filename_message]))
      else if column = ''acquisition.id'' then
        Inr (False, msgs @ [acquisition_id_message])
      else Inr (True, msgs))"

section \<open>Tables\<close>

text \<open>
  A pandas \<open>DataFrame\<close> as \<open>read_csv\<close> builds it: the column names, and the rows of cells
  under the default index \<open>0, 1, ...\<close> (so a row's label is its position). pandas keeps a
  dtype for every column and derives from them the dtype of the array \<open>df.values\<close>:
  \<open>int64\<close> when every column is \<open>int64\<close>, \<open>bool\<close> when every column is \<open>bool\<close>,
  \<open>float64\<close> when every column is numeric and one of them is \<open>float64\<close>, and \<open>object\<close>
  otherwise. The model does not derive it: the table carries the dtype of the array
  \<open>df.fillna(0).values\<close> in the field \<open>values_dtype\<close>.
\<close>

datatype dtype = Int64 | Float64 | Bool | Object

record dataframe =
  columns :: "string list"
  rows :: "pyval list list"
  values_dtype :: dtype

text \<open>The cells that an array of a dtype can come from. The integers of a table are
  \<open>int64\<close>; integer-valued floats outside this range are not modelled.\<close>

definition in_int64 :: "int \<Rightarrow> bool" where
  "in_int64 i = (- (2 ^ 63) \<le> i \<and> i < 2 ^ 63)"

fun conforms :: "dtype \<Rightarrow> pyval \<Rightarrow> bool" where
  "conforms d (PInt i) = (in_int64 i \<and> d \<noteq> Bool)"
| "conforms d (PBool b) = (d = Bool \<or> d = Object)"
| "conforms d PNaN = (d = Float64 \<or> d = Object)"
| "conforms d PNone = (d = Object)"
| "conforms d (PStr s) = (d = Object)"

definition well_formed :: "dataframe \<Rightarrow> bool" where
  "well_formed df =
     (distinct (columns df) \<and> list_all (\<lambda>row. length row = length (columns df)) (rows df)
      \<and> list_all (list_all (conforms (values_dtype df))) (rows df))"

text \<open>\<open>df.shape\<close>\<close>

definition shape :: "dataframe \<Rightarrow> nat \<times> nat" where
  "shape df = (length (rows df), length (columns df))"

text \<open>\<open>df.iloc[r, c]\<close>\<close>

definition iloc :: "dataframe \<Rightarrow> nat \<Rightarrow> nat \<Rightarrow> error + pyval" where
  "iloc df r c =
     (if r < length (rows df) \<and> c < length (columns df) \<and> c < length (rows df ! r)
      then Inr (rows df ! r ! c) else Inl IndexError)"

text \<open>\<open>df.columns[c]\<close>\<close>

definition column_at :: "dataframe \<Rightarrow> nat \<Rightarrow> error + string" where
  "column_at df c = (if c < length (columns df) then Inr (columns df ! c) else Inl IndexError)"

fun index_of :: "'a \<Rightarrow> 'a list \<Rightarrow> nat" where
  "index_of x [] = 0"
| "index_of x (y # ys) = (if x = y then 0 else Suc (index_of x ys))"

text \<open>\<open>df.loc[r, name]\<close>\<close>

definition loc :: "dataframe \<Rightarrow> nat \<Rightarrow> string \<Rightarrow> error + pyval" where
  "loc df r name =
     (if r < length (rows df) \<and> name \<in> set (columns df)
      then iloc df r (index_of name (columns df)) else Inl KeyError)"

text \<open>\<open>pandas.isna\<close> on a cell, and \<open>df.fillna(fill)\<close>.\<close>

fun isna :: "pyval \<Rightarrow> bool" where
  "isna PNaN = True"
| "isna PNone = True"
| "isna (PStr s) = False"
| "isna (PInt i) = False"
| "isna (PBool b) = False"

definition fillna :: "pyval \<Rightarrow> dataframe \<Rightarrow> dataframe" where
  "fillna fill df = df\<lparr>rows := map (map (\<lambda>v. if isna v then fill else v)) (rows df)\<rparr>"

text \<open>
  The float64 nearest to an integer (to nearest, ties to even), as an integer: what the
  conversion of an \<open>int64\<close> to \<open>float64\<close> keeps. \<open>excess n\<close> is the number of bits of
  \<open>n\<close> beyond the 53 of a float64's significand.
\<close>

function excess :: "nat \<Rightarrow> nat" where
  "excess n = (if n < 2 ^ 53 then 0 else Suc (excess (n div 2)))"
  by pat_completeness auto
termination
  by (relation "measure id") auto

declare excess.simps [simp del]

definition to_double :: "int \<Rightarrow> int" where
  "to_double i =
     (let n = nat \<bar>i\<bar>;
          e = excess n;
          q = n div 2 ^ e;
          r = n mod 2 ^ e;
          m = (if 2 ^ e < 2 * r \<or> (2 * r = 2 ^ e \<and> odd q) then q + 1 else q)
      in sgn i * int (m * 2 ^ e))"

text \<open>\<open>x.astype(d)\<close> on an element: only the conversion to \<open>float64\<close> changes a value
  of the model.\<close>

fun astype :: "dtype \<Rightarrow> pyval \<Rightarrow> pyval" where
  "astype Float64 (PInt i) = PInt (to_double i)"
| "astype Float64 (PBool b) = PInt (if b then 1 else 0)"
| "astype d v = v"

text \<open>A numpy array of two dimensions: its dtype and its elements. \<open>df.values\<close> is the
  array of the cells, converted to its dtype.\<close>

type_synonym ndarray = "dtype \<times> pyval list list"

definition values_of :: "dataframe \<Rightarrow> ndarray" where
  "values_of df = (values_dtype df, map (map (astype (values_dtype df))) (rows df))"

text \<open>Python's \<open>a == b\<close> on cells: a boolean is the integer 0 or 1, not-a-number equals
  nothing.\<close>

fun py_eq :: "pyval \<Rightarrow> pyval \<Rightarrow> bool" where
  "py_eq (PStr a) (PStr b) = (a = b)"
| "py_eq (PInt a) (PInt b) = (a = b)"
| "py_eq (PInt a) (PBool b) = (a = (if b then 1 else 0))"
| "py_eq (PBool a) (PInt b) = ((if a then 1 else 0) = b)"
| "py_eq (PBool a) (PBool b) = (a = b)"
| "py_eq PNone PNone = True"
| "py_eq _ _ = False"

text \<open>
  \<open>a == b\<close> on two arrays of the same shape: numpy converts both to their common dtype
  (\<open>numpy.result_type\<close>) and compares element by element; on \<open>object\<close> the elements are
  compared with Python's \<open>==\<close>.
\<close>

definition result_type :: "dtype \<Rightarrow> dtype \<Rightarrow> dtype" where
  "result_type d1 d2 =
     (if d1 = Object \<or> d2 = Object then Object
      else if d1 = Float64 \<or> d2 = Float64 then Float64
      else if d1 = Int64 \<or> d2 = Int64 then Int64
      else Bool)"

definition array_eq :: "ndarray \<Rightarrow> ndarray \<Rightarrow> bool list list" where
  "array_eq a b =
     (let d = result_type (fst a) (fst b)
      in map2 (map2 (\<lambda>x y. py_eq (astype d x) (astype d y))) (snd a) (snd b))"

section \<open>The cell diff\<close>

text \<open>\<open>np.dstack(np.where(arr == False))[0].tolist()\<close>: the positions of \<open>False\<close> in a
  two-dimensional array, row by row.\<close>

definition where_false :: "bool list list \<Rightarrow> (nat \<times> nat) list" where
  "where_false arr =
     concat (map (\<lambda>r. map (\<lambda>c. (r, c)) (filter (\<lambda>c. arr ! r ! c = False) [0 ..< length (arr ! r)]))
       [0 ..< length arr])"

type_synonym provenance = "(pyval \<times> pyval \<times> nat \<times> string) list"

fun provenance_rows :: "dataframe \<Rightarrow> dataframe \<Rightarrow> (nat \<times> nat) list \<Rightarrow> error + provenance" where
  "provenance_rows df1 df2 [] = Inr []"
| "provenance_rows df1 df2 (pair # rest) =
     (case iloc df1 (fst pair) (snd pair) of Inl e \<Rightarrow> Inl e | Inr original \<Rightarrow>
     (case iloc df2 (fst pair) (snd pair) of Inl e \<Rightarrow> Inl e | Inr modified \<Rightarrow>
     (case column_at df1 (snd pair) of Inl e \<Rightarrow> Inl e | Inr column \<Rightarrow>
     (case provenance_rows df1 df2 rest of Inl e \<Rightarrow> Inl e | Inr lst \<Rightarrow>
        Inr ((original, modified, fst pair, column) # lst)))))"

text \<open>
  \<open>get_unequal_cells df1 df2 provenance\<close> returns the indices, with the provenance table
  written to the log file (\<open>None\<close> when none is written), or the exception raised.
\<close>

definition get_unequal_cells ::
  "dataframe \<Rightarrow> dataframe \<Rightarrow> bool \<Rightarrow> error + ((nat \<times> nat) list \<times> provenance option)" where
  "get_unequal_cells df1 df2 provenance =
     (if shape df1 \<noteq> shape df2 then Inl ShapeMismatch
      else
        let comparison_array =
              array_eq (values_of (fillna (PInt 0) df1)) (values_of (fillna (PInt 0) df2));
            indices = where_false comparison_array
        in if provenance then
             (case provenance_rows df1 df2 indices of
                Inl e \<Rightarrow> Inl e
              | Inr lst \<Rightarrow> Inr (indices, Some lst))
           else Inr (indices, None))"

section \<open>The change validator\<close>

text \<open>The first loop of \<open>validate_on_unequal_cells\<close>: the list \<open>valid\<close>, with
  \<open>ERROR_MESSAGES\<close> after it.\<close>

fun check_loop ::
  "(nat \<times> nat) list \<Rightarrow> dataframe \<Rightarrow> string list \<Rightarrow> error + (bool list \<times> string list)" where
  "check_loop [] changed_df msgs = Inr ([], msgs)"
| "check_loop (pair # rest) changed_df msgs =
     (case iloc changed_df (fst pair) (snd pair) of Inl e \<Rightarrow> Inl e | Inr v \<Rightarrow>
     (case column_at changed_df (snd pair) of Inl e \<Rightarrow> Inl e | Inr column \<Rightarrow>
     (case change_checker v column msgs of Inl e \<Rightarrow> Inl e | Inr (b, msgs') \<Rightarrow>
     (case check_loop rest changed_df msgs' of Inl e \<Rightarrow> Inl e | Inr (valid, msgs'') \<Rightarrow>
        Inr (b # valid, msgs'')))))"

text \<open>\<open>"Row {}, Column {}, \"{}\"".format(r + 1, c + 1, v)\<close>\<close>

definition row_line :: "nat \<times> nat \<Rightarrow> pyval \<Rightarrow> string" where
  "row_line pair v =
     ''Row '' @ str_int (int (fst pair) + 1) @ '', Column '' @ str_int (int (snd pair) + 1)
       @ '', \"'' @ py_str v @ ''\"''"

text \<open>The second loop: the lines printed, with \<open>ERROR_MESSAGES\<close> after it.
  \<open>ERROR_MESSAGES.pop(0)\<close> raises \<open>IndexError\<close> on an empty list.\<close>

fun report_loop ::
  "bool list \<Rightarrow> (nat \<times> nat) list \<Rightarrow> dataframe \<Rightarrow> string list \<Rightarrow> error + (string list \<times> string list)" where
  "report_loop [] indices_list changed_df msgs = Inr ([], msgs)"
| "report_loop (b # valid) [] changed_df msgs = Inl IndexError"
| "report_loop (b # valid) (pair # rest) changed_df msgs =
     (if b = False then
        (case iloc changed_df (fst pair) (snd pair) of Inl e \<Rightarrow> Inl e | Inr v \<Rightarrow>
        (case msgs of [] \<Rightarrow> Inl IndexError | m # msgs' \<Rightarrow>
        (case report_loop valid rest changed_df msgs' of Inl e \<Rightarrow> Inl e | Inr (out, msgs'') \<Rightarrow>
           Inr (['''', row_line pair v, m] @ out, msgs''))))
      else report_loop valid rest changed_df msgs)"

definition report_header :: string where
  "report_header = ''The following changes don't seem to be valid for this data:''"

text \<open>
  \<open>validate_on_unequal_cells indices_list changed_df msgs\<close> returns the boolean, the list
  \<open>ERROR_MESSAGES\<close> after the call and the lines printed.
\<close>

definition validate_on_unequal_cells ::
  "(nat \<times> nat) list \<Rightarrow> dataframe \<Rightarrow> string list \<Rightarrow> error + (bool \<times> string list \<times> string list)" where
  "validate_on_unequal_cells indices_list changed_df msgs =
     (case check_loop indices_list changed_df msgs of
        Inl e \<Rightarrow> Inl e
      | Inr (valid, msgs') \<Rightarrow>
          if list_all (\<lambda>b. b) valid then Inr (True, msgs', [])
          else
            (case report_loop valid indices_list changed_df msgs' of
               Inl e \<Rightarrow> Inl e
             | Inr (out, msgs'') \<Rightarrow>
                 Inr (False, msgs'', report_header # out)))"

section \<open>The update translator and applier\<close>

text \<open>\<open>s.split(d)\<close>\<close>

fun split_on :: "char \<Rightarrow> string \<Rightarrow> string list" where
  "split_on d [] = [[]]"
| "split_on d (x # xs) =
     (if x = d then [] # split_on d xs
      else (case split_on d xs of [] \<Rightarrow> [[x]] | w # ws \<Rightarrow> (x # w) # ws))"

text \<open>The result of \<open>create_nested_fw_dict\<close>: the value, or a dictionary of one key.\<close>

datatype fwdict = Leaf pyval | Node string fwdict

fun create_nested_fw_dict :: "string list \<Rightarrow> pyval \<Rightarrow> fwdict" where
  "create_nested_fw_dict [] v = Leaf v"
| "create_nested_fw_dict (k # tree_list) v = Node k (create_nested_fw_dict tree_list v)"

text \<open>
  The remote store: \<open>client.get(id).files\<close> is the list of the files of the acquisition
  \<open>id\<close>, each with its \<open>type\<close>; an unknown identifier is an API error. The calls of
  \<open>update_info\<close> and \<open>update_classification\<close> are recorded with the identifier, the file
  and the mapping passed.
\<close>

record fw_file =
  fname :: string
  ftype :: string

type_synonym client = "string \<Rightarrow> fw_file list option"

datatype fw_call =
    Update_info (entity: string) (target: fw_file) (payload: fwdict)
  | Update_classification (entity: string) (target: fw_file) (payload: fwdict)

text \<open>The body of the loop of \<open>upload_to_flywheel\<close>: the calls made for one pair.\<close>

definition upload_pair :: "dataframe \<Rightarrow> nat \<times> nat \<Rightarrow> client \<Rightarrow> error + fw_call list" where
  "upload_pair modified_df pair client =
     (case loc modified_df (fst pair) ''acquisition.id'' of Inl e \<Rightarrow> Inl e | Inr acquisition \<Rightarrow>
     (case loc modified_df (fst pair) ''type'' of Inl e \<Rightarrow> Inl e | Inr file_type \<Rightarrow>
     (case client (py_str acquisition) of None \<Rightarrow> Inl ApiError | Some files \<Rightarrow>
     (case column_at modified_df (snd pair) of Inl e \<Rightarrow> Inl e | Inr column \<Rightarrow>
     (case iloc modified_df (fst pair) (snd pair) of Inl e \<Rightarrow> Inl e | Inr v \<Rightarrow>
     (let update = create_nested_fw_dict (split_on CHR ''_'' column) v in
     (case filter (\<lambda>f. py_eq (PStr (ftype f)) file_type) files of
        [] \<Rightarrow> Inl IndexError
      | f # _ \<Rightarrow>
     (case update of
        Leaf _ \<Rightarrow> Inl AttributeError
      | Node k sub \<Rightarrow>
          Inr ((if k = ''info'' then [Update_info (py_str acquisition) f sub] else [])
             @ (if k = ''classification'' then [Update_classification (py_str acquisition) f sub]
                else []))))))))))"

text \<open>\<open>upload_to_flywheel\<close> returns the calls made, and the exception that stopped the
  loop if one did.\<close>

fun upload_to_flywheel ::
  "dataframe \<Rightarrow> (nat \<times> nat) list \<Rightarrow> client \<Rightarrow> fw_call list \<times> error option" where
  "upload_to_flywheel modified_df [] client = ([], None)"
| "upload_to_flywheel modified_df (pair # change_index) client =
     (case upload_pair modified_df pair client of
        Inl e \<Rightarrow> ([], Some e)
      | Inr cs \<Rightarrow>
          (case upload_to_flywheel modified_df change_index client of
             (cs', r) \<Rightarrow> (cs @ cs', r)))"

section \<open>The pipeline\<close>

text \<open>\<open>ERROR_MESSAGES\<close> when the module is loaded.\<close>

definition ERROR_MESSAGES :: "string list" where
  "ERROR_MESSAGES = []"

text \<open>
  One run of \<open>main\<close> on the two tables read and the client: the lines printed, the remote
  calls made, the provenance table written, and the uncaught exception if there is one
  (the process exits with code 0 otherwise).
\<close>

record run =
  stdout :: "string list"
  calls :: "fw_call list"
  written :: "provenance option"
  raised :: "error option"

definition main :: "client \<Rightarrow> dataframe \<Rightarrow> dataframe \<Rightarrow> run" where
  "main fw df_original df_modified =
     (case get_unequal_cells df_original df_modified True of
        Inl e \<Rightarrow> \<lparr>stdout = [], calls = [], written = None, raised = Some e\<rparr>
      | Inr (unequal, prov) \<Rightarrow>
          (case validate_on_unequal_cells unequal df_modified ERROR_MESSAGES of
             Inl e \<Rightarrow> \<lparr>stdout = [], calls = [], written = prov, raised = Some e\<rparr>
           | Inr (res, msgs, out) \<Rightarrow>
               if length msgs = 0 \<and> res = True then
                 (case upload_to_flywheel df_modified unequal fw of
                    (cs, r) \<Rightarrow>
                      \<lparr>stdout = out @ [''Changes appear to be valid! Uploading...'']
                          @ (case r of None \<Rightarrow> [''Done!''] | Some e \<Rightarrow> []),
                       calls = cs, written = prov, raised = r\<rparr>)
               else \<lparr>stdout = out @ [''Exiting...''], calls = [], written = prov, raised = None\<rparr>))"

section \<open>Notions used in the statements\<close>

text \<open>
  The value a cell counts as when two tables are compared: a missing cell is the number
  0, a boolean is the number 0 or 1, a number is itself and a string is itself. Two cells
  differ when these values differ.
\<close>

fun compared_value :: "pyval \<Rightarrow> int + string" where
  "compared_value (PStr s) = Inr s"
| "compared_value (PInt i) = Inl i"
| "compared_value (PBool b) = Inl (if b then 1 else 0)"
| "compared_value PNaN = Inl 0"
| "compared_value PNone = Inl 0"

text \<open>The integers of the table are below \<open>2^53\<close> in absolute value: each is a float64
  exactly.\<close>

fun safe_value :: "pyval \<Rightarrow> bool" where
  "safe_value (PInt i) = (\<bar>i\<bar> < 2 ^ 53)"
| "safe_value v = True"

definition safe_integers :: "dataframe \<Rightarrow> bool" where
  "safe_integers df = list_all (list_all safe_value) (rows df)"

text \<open>What the comparison array of \<open>get_unequal_cells\<close> holds at a position, from the
  dtypes of the two arrays and the two cells.\<close>

definition cell_compare :: "dtype \<Rightarrow> dtype \<Rightarrow> pyval \<Rightarrow> pyval \<Rightarrow> bool" where
  "cell_compare d1 d2 a b =
     py_eq (astype (result_type d1 d2) (astype d1 (if isna a then PInt 0 else a)))
           (astype (result_type d1 d2) (astype d2 (if isna b then PInt 0 else b)))"

text \<open>The values on which \<open>math.isnan\<close> does not raise, with the strings: a string, a
  boolean, not-a-number, and an integer that converts to a float.\<close>

fun str_or_number :: "pyval \<Rightarrow> bool" where
  "str_or_number (PStr s) = True"
| "str_or_number (PInt i) = (\<not> too_large_for_float i)"
| "str_or_number (PBool b) = True"
| "str_or_number PNaN = True"
| "str_or_number PNone = False"

text \<open>What \<open>change_checker\<close> returns on the cell at \<open>pair\<close> when \<open>ERROR_MESSAGES\<close> is
  empty: the boolean and the messages this cell appends.\<close>

definition cell_result :: "dataframe \<Rightarrow> nat \<times> nat \<Rightarrow> error + (bool \<times> string list)" where
  "cell_result df pair =
     (case iloc df (fst pair) (snd pair) of Inl e \<Rightarrow> Inl e | Inr v \<Rightarrow>
     (case column_at df (snd pair) of Inl e \<Rightarrow> Inl e | Inr column \<Rightarrow>
        change_checker v column []))"

definition cell_messages :: "dataframe \<Rightarrow> nat \<times> nat \<Rightarrow> string list" where
  "cell_messages df pair = (case cell_result df pair of Inl e \<Rightarrow> [] | Inr (b, ms) \<Rightarrow> ms)"

definition rejected :: "dataframe \<Rightarrow> nat \<times> nat \<Rightarrow> bool" where
  "rejected df pair = (case cell_result df pair of Inr (False, ms) \<Rightarrow> True | _ \<Rightarrow> False)"

text \<open>The lines reported for a rejected cell: the empty line, the line with the 1-indexed
  row and column and the value, and the messages of this cell.\<close>

definition report_block :: "dataframe \<Rightarrow> nat \<times> nat \<Rightarrow> string list" where
  "report_block df pair =
     (case iloc df (fst pair) (snd pair) of Inl e \<Rightarrow> [] | Inr v \<Rightarrow>
     (case cell_result df pair of Inl e \<Rightarrow> [] | Inr (b, ms) \<Rightarrow>
        ['''', row_line pair v] @ ms))"

section \<open>Scenarios\<close>

text \<open>One acquisition, and an edit of its modality.\<close>

definition original_table :: dataframe where
  "original_table = \<lparr>columns = [''acquisition.id'', ''type'', ''modality''],
     rows = [[PInt 123, PStr ''nifti'', PStr ''MR'']], values_dtype = Object\<rparr>"

definition modified_table :: dataframe where
  "modified_table = \<lparr>columns = [''acquisition.id'', ''type'', ''modality''],
     rows = [[PInt 123, PStr ''nifti'', PStr ''CT'']], values_dtype = Object\<rparr>"

text \<open>The same edit in a column under \<open>info\<close>.\<close>

definition info_original_table :: dataframe where
  "info_original_table = \<lparr>columns = [''acquisition.id'', ''type'', ''info_modality''],
     rows = [[PInt 123, PStr ''nifti'', PStr ''MR'']], values_dtype = Object\<rparr>"

definition info_modified_table :: dataframe where
  "info_modified_table = \<lparr>columns = [''acquisition.id'', ''type'', ''info_modality''],
     rows = [[PInt 123, PStr ''nifti'', PStr ''CT'']], values_dtype = Object\<rparr>"

definition dicom_file :: fw_file where
  "dicom_file = \<lparr>fname = ''scan.dicom.zip'', ftype = ''dicom''\<rparr>"

definition nifti_file :: fw_file where
  "nifti_file = \<lparr>fname = ''scan.nii.gz'', ftype = ''nifti''\<rparr>"


definition store :: client where
  "store = [''123'' \<mapsto> [dicom_file, nifti_file]]"



text \<open>Four edits in one row: three that the rules reject and one that they accept.\<close>

definition review_original_table :: dataframe where
  "review_original_table =
     \<lparr>columns = [''acquisition.id'', ''type'', ''modality'', ''ignore'', ''info_SeriesDescription''],
      rows = [[PInt 123, PStr ''nifti'', PStr ''MR'', PStr ''False'', PStr ''t1'']],
      values_dtype = Object\<rparr>"

definition review_modified_table :: dataframe where
  "review_modified_table =
     \<lparr>columns = [''acquisition.id'', ''type'', ''modality'', ''ignore'', ''info_SeriesDescription''],
      rows = [[PInt 124, PStr ''nifti'', PStr ''xyz'', PStr ''yes'', PStr ''t1w'']],
      values_dtype = Object\<rparr>"

text \<open>A cell that is missing in one table and 0 in the other.\<close>

definition missing_table :: dataframe where
  "missing_table = \<lparr>columns = [''acquisition.id'', ''run''],
     rows = [[PInt 123, PNaN]], values_dtype = Float64\<rparr>"

definition zero_table :: dataframe where
  "zero_table = \<lparr>columns = [''acquisition.id'', ''run''],
     rows = [[PInt 123, PInt 0]], values_dtype = Int64\<rparr>"

text \<open>Two integers beyond \<open>2^53\<close> next to a float column.\<close>

definition wide_table :: dataframe where
  "wide_table = \<lparr>columns = [''acquisition.id'', ''run''],
     rows = [[PInt (2 ^ 53), PNaN]], values_dtype = Float64\<rparr>"

definition wide_table_plus_one :: dataframe where
  "wide_table_plus_one = \<lparr>columns = [''acquisition.id'', ''run''],
     rows = [[PInt (2 ^ 53 + 1), PNaN]], values_dtype = Float64\<rparr>"

text \<open>A table of another shape.\<close>

definition two_row_table :: dataframe where
  "two_row_table = \<lparr>columns = [''acquisition.id'', ''type'', ''modality''],
     rows = [[PInt 123, PStr ''nifti'', PStr ''MR''], [PInt 124, PStr ''nifti'', PStr ''MR'']],
     values_dtype = Object\<rparr>"

section \<open>Properties of the field rules\<close>

lemma string_field_not_drop_down:
  "x \<in> set string_fields \<Longrightarrow>
   x \<notin> set (map fst drop_down_bool) \<and> x \<notin> set (map fst drop_down_single_fields)"
  by (auto simp: drop_down_bool_def drop_down_single_fields_def string_fields_def)

lemma string_field_rule:
  assumes "lower column \<in> set string_fields"
  shows "change_checker v column msgs =
     (case v of
        PStr s \<Rightarrow> Inr (True, msgs)
      | PNaN \<Rightarrow> Inr (True, msgs)
      | PNone \<Rightarrow> Inl TypeError
      | PInt i \<Rightarrow>
          if too_large_for_float i then Inl OverflowError
          else Inr (False, msgs @ [string_message])
      | PBool b \<Rightarrow> Inr (False, msgs @ [string_message]))"
  using assms string_field_not_drop_down [OF assms]
  unfolding change_checker_def by (cases v) simp_all

lemma change_checker_cases:
  "change_checker v column msgs = Inl TypeError \<or>
   change_checker v column msgs = Inl OverflowError \<or>
   change_checker v column msgs = Inr (True, msgs) \<or>
   (\<exists>m. change_checker v column msgs = Inr (False, msgs @ [m]))"
  by (cases "lower column \<in> set (map fst drop_down_bool)";
      cases "lower column \<in> set (map fst drop_down_single_fields)";
      cases "lower column \<in> set string_fields";
      cases "lower column = ''filename''";
      cases v; simp add: change_checker_def)

lemma change_checker_queue:
  "change_checker v column msgs =
     (case change_checker v column [] of Inl e \<Rightarrow> Inl e | Inr (b, ms) \<Rightarrow> Inr (b, msgs @ ms))"
  by (cases "lower column \<in> set (map fst drop_down_bool)";
      cases "lower column \<in> set (map fst drop_down_single_fields)";
      cases "lower column \<in> set string_fields";
      cases "lower column = ''filename''";
      cases v; simp add: change_checker_def)

lemma change_checker_no_raise:
  "str_or_number v \<Longrightarrow> change_checker v column msgs \<noteq> Inl e"
  by (cases "lower column \<in> set (map fst drop_down_bool)";
      cases "lower column \<in> set (map fst drop_down_single_fields)";
      cases "lower column \<in> set string_fields";
      cases "lower column = ''filename''";
      cases v; simp add: change_checker_def)

lemma in_int64_converts: "in_int64 i \<Longrightarrow> \<not> too_large_for_float i"
  unfolding in_int64_def too_large_for_float_def by simp linarith

lemmas field_defs =
  lower_char_def drop_down_bool_def drop_down_single_fields_def string_fields_def

lemmas grammar_defs = re_match_def anat1_def anat2_def func1_def seg_def nii_def alnum_def

text \<open>
  C7. For every value and every state of the message list, \<open>change_checker\<close> on the
  column \<open>acquisition.id\<close> returns \<open>False\<close> and appends the cannot-edit message.
\<close>

theorem acquisition_id_immutable:
  "change_checker v ''acquisition.id'' msgs = Inr (False, msgs @ [acquisition_id_message])"
  by (simp add: change_checker_def field_defs)

text \<open>
  C8. The name \<open>sub-01_ses-02_task-rest_bold.nii.gz\<close> matches the third grammar and
  \<open>change_checker\<close> accepts it in the column \<open>filename\<close>, appending nothing; the name
  \<open>not_a_bids_name.txt\<close> is rejected there and the filename message is appended.
\<close>

theorem filename_vectors:
  "re_match func1 ''sub-01_ses-02_task-rest_bold.nii.gz''
   \<and> change_checker (PStr ''sub-01_ses-02_task-rest_bold.nii.gz'') ''filename'' msgs
       = Inr (True, msgs)
   \<and> change_checker (PStr ''not_a_bids_name.txt'') ''filename'' msgs
       = Inr (False, msgs @ [filename_message])"
  by (simp add: change_checker_def field_defs grammar_defs)

lemma kelvin_sign_task:
  "lower [CHR ''t'', CHR ''a'', CHR ''s'', CHR 0xE2, CHR 0x84, CHR 0xAA] = ''task''"
  by (simp add: lower_char_def)

theorem change_checker_raises_counterexample:
  "change_checker PNone ''acquisition.label'' [] = Inl TypeError
   \<and> change_checker PNaN ''acquisition.label'' [] = Inr (True, [])"
  by (simp add: change_checker_def field_defs)

lemma huge_integer_raises:
  "change_checker (PInt (2 ^ 1024)) ''acquisition.label'' [] = Inl OverflowError"
  by (simp add: change_checker_def field_defs too_large_for_float_def)

text \<open>
  C2, as the code has it. A value that is \<open>None\<close> in a free-string column raises a
  \<open>TypeError\<close>, and not-a-number is accepted there, so the claim fails as stated.
  For every value that is a string, a boolean, not-a-number or an integer that converts
  to a float (below \<open>2^1024 - 2^970\<close> in absolute value), and every column name,
  \<open>change_checker\<close> returns a boolean; in a free-string column it returns \<open>True\<close> for a
  string and for not-a-number, and \<open>False\<close> with the strings-only message for such an
  integer and for a boolean.
\<close>

theorem change_checker_total:
  assumes "str_or_number user_input"
  shows "(\<exists>b msgs'. change_checker user_input column msgs = Inr (b, msgs'))
    \<and> (lower column \<in> set string_fields \<longrightarrow>
         change_checker user_input column msgs =
           (case user_input of
              PStr s \<Rightarrow> Inr (True, msgs)
            | PNaN \<Rightarrow> Inr (True, msgs)
            | _ \<Rightarrow> Inr (False, msgs @ [string_message])))"
proof
  from change_checker_cases [of user_input column msgs]
    change_checker_no_raise [OF assms, of column msgs TypeError]
    change_checker_no_raise [OF assms, of column msgs OverflowError]
  show "\<exists>b msgs'. change_checker user_input column msgs = Inr (b, msgs')"
    by blast
next
  show "lower column \<in> set string_fields \<longrightarrow>
         change_checker user_input column msgs =
           (case user_input of
              PStr s \<Rightarrow> Inr (True, msgs)
            | PNaN \<Rightarrow> Inr (True, msgs)
            | _ \<Rightarrow> Inr (False, msgs @ [string_message]))"
    using assms by (cases user_input) (simp_all add: string_field_rule)
qed

theorem change_checker_total_witness:
  "str_or_number (PInt 5)
   \<and> change_checker (PInt 5) ''acquisition.label'' [] = Inr (False, [string_message])
   \<and> change_checker (PStr ''rest'') ''Task'' [] = Inr (True, [])"
proof -
  have s: "lower ''acquisition.label'' \<in> set string_fields" "lower ''Task'' \<in> set string_fields"
    by (simp_all add: field_defs)
  have h: "str_or_number (PInt 5)" "str_or_number (PStr ''rest'')"
    by (simp_all add: too_large_for_float_def)
  show ?thesis
    using s h change_checker_total [OF h(1), of "''acquisition.label''" "[]"]
      change_checker_total [OF h(2), of "''Task''" "[]"]
    by simp
qed

section \<open>Properties of the cell diff\<close>

text \<open>
  C9. For two tables whose shapes (row count, column count) differ, \<open>get_unequal_cells\<close>
  raises the shape-mismatch exception: it returns no indices, whatever the cells are.
\<close>

theorem shape_mismatch_raises:
  "shape df1 \<noteq> shape df2 \<Longrightarrow> get_unequal_cells df1 df2 provenance = Inl ShapeMismatch"
  by (simp add: get_unequal_cells_def)

theorem shape_mismatch_raises_witness:
  "shape original_table \<noteq> shape two_row_table
   \<and> get_unequal_cells original_table two_row_table True = Inl ShapeMismatch"
proof -
  have h: "shape original_table \<noteq> shape two_row_table"
    by (simp add: shape_def original_table_def two_row_table_def)
  show ?thesis using h shape_mismatch_raises [OF h] by simp
qed

lemma set_where_false:
  "set (where_false arr) = {(r, c). r < length arr \<and> c < length (arr ! r) \<and> \<not> arr ! r ! c}"
  by (auto simp: where_false_def)

lemma concat_map_all_empty:
  "(\<And>i. i < m \<Longrightarrow> g i = []) \<Longrightarrow> concat (map g [0 ..< m]) = []"
  by (induction m) simp_all

lemma concat_map_single:
  "r < m \<Longrightarrow> (\<And>i. i < m \<Longrightarrow> i \<noteq> r \<Longrightarrow> g i = []) \<Longrightarrow> concat (map g [0 ..< m]) = g r"
proof (induction m)
  case 0
  then show ?case by simp
next
  case (Suc m)
  show ?case
  proof (cases "r = m")
    case True
    with Suc.prems have "concat (map g [0 ..< m]) = []"
      by (intro concat_map_all_empty) simp
    with True show ?thesis by simp
  next
    case False
    with Suc.prems have "r < m" "g m = []" by simp_all
    with Suc show ?thesis by simp
  qed
qed

lemma filter_upt_single:
  "c < n \<Longrightarrow> P c \<Longrightarrow> (\<And>j. j < n \<Longrightarrow> j \<noteq> c \<Longrightarrow> \<not> P j) \<Longrightarrow> filter P [0 ..< n] = [c]"
proof -
  assume a: "c < n" "P c" "\<And>j. j < n \<Longrightarrow> j \<noteq> c \<Longrightarrow> \<not> P j"
  have "filter P [0 ..< n] = concat (map (\<lambda>j. if P j then [j] else []) [0 ..< n])"
    by (induction n) simp_all
  also have "\<dots> = (if P c then [c] else [])"
    using a by (intro concat_map_single) simp_all
  finally show ?thesis using a by simp
qed

subsection \<open>The conversion to float64\<close>

lemma to_double_safe: "\<bar>i\<bar> < 2 ^ 53 \<Longrightarrow> to_double i = i"
proof -
  assume a: "\<bar>i\<bar> < 2 ^ 53"
  then have "nat \<bar>i\<bar> < 2 ^ 53" by simp
  then have "excess (nat \<bar>i\<bar>) = 0" by (subst excess.simps) simp
  then have "to_double i = sgn i * int (nat \<bar>i\<bar>)"
    by (simp add: to_double_def)
  also have "\<dots> = i" by (simp add: mult_sgn_abs)
  finally show ?thesis .
qed

lemma astype_safe:
  "safe_value v \<Longrightarrow>
   safe_value (astype d v) \<and> compared_value (astype d v) = compared_value v
   \<and> isna (astype d v) = isna v"
  by (cases d; cases v) (simp_all add: to_double_safe)

lemma py_eq_compared_value:
  "\<not> isna x \<Longrightarrow> \<not> isna y \<Longrightarrow> py_eq x y = (compared_value x = compared_value y)"
  by (cases x; cases y) auto

lemma cell_compare_safe:
  assumes "safe_value a" "safe_value b"
  shows "cell_compare d1 d2 a b = (compared_value a = compared_value b)"
proof -
  let ?a = "if isna a then PInt 0 else a" and ?b = "if isna b then PInt 0 else b"
  have a: "safe_value ?a" "\<not> isna ?a" "compared_value ?a = compared_value a"
    using assms(1) by (cases a; simp)+
  have b: "safe_value ?b" "\<not> isna ?b" "compared_value ?b = compared_value b"
    using assms(2) by (cases b; simp)+
  from astype_safe [OF a(1), of d1] a
  have a1: "safe_value (astype d1 ?a)" "\<not> isna (astype d1 ?a)"
    "compared_value (astype d1 ?a) = compared_value a"
    by simp_all
  from astype_safe [OF b(1), of d2] b
  have b1: "safe_value (astype d2 ?b)" "\<not> isna (astype d2 ?b)"
    "compared_value (astype d2 ?b) = compared_value b"
    by simp_all
  from astype_safe [OF a1(1), of "result_type d1 d2"] a1
  have a2: "\<not> isna (astype (result_type d1 d2) (astype d1 ?a))"
    "compared_value (astype (result_type d1 d2) (astype d1 ?a)) = compared_value a"
    by simp_all
  from astype_safe [OF b1(1), of "result_type d1 d2"] b1
  have b2: "\<not> isna (astype (result_type d1 d2) (astype d2 ?b))"
    "compared_value (astype (result_type d1 d2) (astype d2 ?b)) = compared_value b"
    by simp_all
  show ?thesis
    unfolding cell_compare_def
    by (simp only: py_eq_compared_value [OF a2(1) b2(1)] a2(2) b2(2))
qed

lemma astype_zero: "astype d (PInt 0) = PInt 0"
proof -
  have "excess 0 = 0" by (subst excess.simps) simp
  then have "to_double 0 = 0" by (simp add: to_double_def)
  then show ?thesis by (cases d) simp_all
qed

lemma cell_compare_missing_zero:
  "(isna a \<and> b = PInt 0) \<or> (a = PInt 0 \<and> isna b) \<Longrightarrow> cell_compare d1 d2 a b"
  by (auto simp: cell_compare_def astype_zero)

subsection \<open>The comparison array\<close>

lemma comparison_length:
  "length (array_eq (values_of (fillna (PInt 0) df1)) (values_of (fillna (PInt 0) df2)))
    = min (length (rows df1)) (length (rows df2))"
  by (simp add: array_eq_def values_of_def fillna_def Let_def)

lemma comparison_row_length:
  assumes "r < length (rows df1)" "r < length (rows df2)"
  shows "length (array_eq (values_of (fillna (PInt 0) df1)) (values_of (fillna (PInt 0) df2)) ! r)
    = min (length (rows df1 ! r)) (length (rows df2 ! r))"
  using assms by (simp add: array_eq_def values_of_def fillna_def Let_def)

lemma comparison_nth:
  assumes "r < length (rows df1)" "r < length (rows df2)"
    and "c < length (rows df1 ! r)" "c < length (rows df2 ! r)"
  shows "array_eq (values_of (fillna (PInt 0) df1)) (values_of (fillna (PInt 0) df2)) ! r ! c
    = cell_compare (values_dtype df1) (values_dtype df2) (rows df1 ! r ! c) (rows df2 ! r ! c)"
  using assms by (simp add: array_eq_def values_of_def fillna_def cell_compare_def Let_def)

lemma in_where_false_comparison:
  "(r, c) \<in> set (where_false
      (array_eq (values_of (fillna (PInt 0) df1)) (values_of (fillna (PInt 0) df2))))
   \<longleftrightarrow> r < length (rows df1) \<and> r < length (rows df2)
     \<and> c < length (rows df1 ! r) \<and> c < length (rows df2 ! r)
     \<and> \<not> cell_compare (values_dtype df1) (values_dtype df2) (rows df1 ! r ! c) (rows df2 ! r ! c)"
proof -
  have "(r, c) \<in> set (where_false
      (array_eq (values_of (fillna (PInt 0) df1)) (values_of (fillna (PInt 0) df2))))
   \<longleftrightarrow> r < min (length (rows df1)) (length (rows df2))
     \<and> c < length (array_eq (values_of (fillna (PInt 0) df1)) (values_of (fillna (PInt 0) df2)) ! r)
     \<and> \<not> array_eq (values_of (fillna (PInt 0) df1)) (values_of (fillna (PInt 0) df2)) ! r ! c"
    by (simp only: set_where_false comparison_length mem_Collect_eq prod.case)
  also have "\<dots> \<longleftrightarrow> r < length (rows df1) \<and> r < length (rows df2)
     \<and> c < length (rows df1 ! r) \<and> c < length (rows df2 ! r)
     \<and> \<not> cell_compare (values_dtype df1) (values_dtype df2) (rows df1 ! r ! c) (rows df2 ! r ! c)"
    by (auto simp: comparison_row_length comparison_nth)
  finally show ?thesis .
qed

lemma get_unequal_cells_Inr:
  "get_unequal_cells df1 df2 provenance = Inr (indices, p) \<Longrightarrow>
   shape df1 = shape df2 \<and>
   indices = where_false
     (array_eq (values_of (fillna (PInt 0) df1)) (values_of (fillna (PInt 0) df2)))"
  by (auto simp: get_unequal_cells_def Let_def split: if_splits sum.splits)

lemma well_formed_row:
  "well_formed df \<Longrightarrow> r < length (rows df) \<Longrightarrow> length (rows df ! r) = length (columns df)"
  by (simp add: well_formed_def list_all_length)

lemma iloc_in_range:
  "well_formed df \<Longrightarrow> r < length (rows df) \<Longrightarrow> c < length (columns df) \<Longrightarrow>
   iloc df r c = Inr (rows df ! r ! c)"
  by (simp add: iloc_def well_formed_row)

lemma iloc_Inr:
  "iloc df r c = Inr a \<Longrightarrow>
   r < length (rows df) \<and> c < length (columns df) \<and> c < length (rows df ! r) \<and> a = rows df ! r ! c"
  by (auto simp: iloc_def split: if_splits)

lemma provenance_rows_in_range:
  assumes "\<forall>pair \<in> set indices. (\<exists>a. iloc df1 (fst pair) (snd pair) = Inr a)
      \<and> (\<exists>b. iloc df2 (fst pair) (snd pair) = Inr b)"
  shows "\<exists>lst. provenance_rows df1 df2 indices = Inr lst"
  using assms
proof (induction indices)
  case Nil
  then show ?case by simp
next
  case (Cons pair rest)
  then obtain a b lst where
    "iloc df1 (fst pair) (snd pair) = Inr a" "iloc df2 (fst pair) (snd pair) = Inr b"
    "provenance_rows df1 df2 rest = Inr lst"
    by auto
  moreover from this have "snd pair < length (columns df1)"
    by (simp add: iloc_def split: if_splits)
  ultimately show ?case by (simp add: column_at_def)
qed

lemma get_unequal_cells_returns:
  assumes "well_formed df1" "well_formed df2" "shape df1 = shape df2"
  shows "\<exists>p. get_unequal_cells df1 df2 provenance = Inr (where_false
     (array_eq (values_of (fillna (PInt 0) df1)) (values_of (fillna (PInt 0) df2))), p)"
proof -
  let ?idx = "where_false
     (array_eq (values_of (fillna (PInt 0) df1)) (values_of (fillna (PInt 0) df2)))"
  have "\<forall>pair \<in> set ?idx. (\<exists>a. iloc df1 (fst pair) (snd pair) = Inr a)
      \<and> (\<exists>b. iloc df2 (fst pair) (snd pair) = Inr b)"
  proof
    fix pair assume "pair \<in> set ?idx"
    then have "(fst pair, snd pair) \<in> set ?idx" by simp
    then have r: "fst pair < length (rows df1)" "fst pair < length (rows df2)"
      and c: "snd pair < length (rows df1 ! fst pair)" "snd pair < length (rows df2 ! fst pair)"
      by (simp_all only: in_where_false_comparison)
    with assms(1,2) have "snd pair < length (columns df1)" "snd pair < length (columns df2)"
      by (simp_all add: well_formed_row)
    with r assms(1,2) show "(\<exists>a. iloc df1 (fst pair) (snd pair) = Inr a)
      \<and> (\<exists>b. iloc df2 (fst pair) (snd pair) = Inr b)"
      by (simp add: iloc_in_range)
  qed
  from provenance_rows_in_range [OF this] obtain lst where
    "provenance_rows df1 df2 ?idx = Inr lst" ..
  with assms(3) show ?thesis
    by (simp add: get_unequal_cells_def Let_def)
qed

lemma safe_integers_nth:
  "safe_integers df \<Longrightarrow> r < length (rows df) \<Longrightarrow> c < length (rows df ! r) \<Longrightarrow>
   safe_value (rows df ! r ! c)"
  by (simp add: safe_integers_def list_all_length)

lemma single_difference_indices:
  assumes wf: "well_formed df1" "well_formed df2" "shape df1 = shape df2"
    and safe: "safe_integers df1" "safe_integers df2"
    and rc: "r < length (rows df1)" "c < length (columns df1)"
    and ne: "compared_value (rows df1 ! r ! c) \<noteq> compared_value (rows df2 ! r ! c)"
    and eq: "\<And>i j. i < length (rows df1) \<Longrightarrow> j < length (columns df1) \<Longrightarrow> (i, j) \<noteq> (r, c)
       \<Longrightarrow> rows df1 ! i ! j = rows df2 ! i ! j"
  shows "where_false
     (array_eq (values_of (fillna (PInt 0) df1)) (values_of (fillna (PInt 0) df2)))
     = [(r, c)]"
proof -
  let ?arr = "array_eq (values_of (fillna (PInt 0) df1)) (values_of (fillna (PInt 0) df2))"
  let ?g = "\<lambda>i. map (\<lambda>j. (i, j)) (filter (\<lambda>j. ?arr ! i ! j = False) [0 ..< length (?arr ! i)])"
  have len: "length ?arr = length (rows df1)"
    using wf(3) by (simp add: comparison_length shape_def)
  have row: "length (?arr ! i) = length (columns df1)" if "i < length (rows df1)" for i
    using that wf by (simp add: comparison_row_length shape_def well_formed_row)
  have cell: "?arr ! i ! j = (compared_value (rows df1 ! i ! j) = compared_value (rows df2 ! i ! j))"
    if "i < length (rows df1)" "j < length (columns df1)" for i j
  proof -
    from that wf have b: "i < length (rows df2)" "j < length (rows df1 ! i)"
      "j < length (rows df2 ! i)"
      by (simp_all add: shape_def well_formed_row)
    with that safe have "safe_value (rows df1 ! i ! j)" "safe_value (rows df2 ! i ! j)"
      by (simp_all add: safe_integers_nth)
    with that(1) b show ?thesis
      by (simp only: comparison_nth cell_compare_safe)
  qed
  have other: "?g i = []" if "i < length (rows df1)" "i \<noteq> r" for i
  proof -
    have "\<forall>j \<in> set [0 ..< length (columns df1)]. \<not> (?arr ! i ! j = False)"
    proof
      fix j assume "j \<in> set [0 ..< length (columns df1)]"
      then have j: "j < length (columns df1)" by simp
      from eq [OF that(1) j] that(2) show "\<not> (?arr ! i ! j = False)"
        by (simp only: cell [OF that(1) j]) simp
    qed
    then have "filter (\<lambda>j. ?arr ! i ! j = False) [0 ..< length (columns df1)] = []"
      by (rule filter_False)
    then show ?thesis by (simp only: row [OF that(1)] list.map)
  qed
  have this_row: "?g r = [(r, c)]"
  proof -
    have "filter (\<lambda>j. ?arr ! r ! j = False) [0 ..< length (columns df1)] = [c]"
    proof (rule filter_upt_single)
      show "c < length (columns df1)" by (rule rc)
      show "?arr ! r ! c = False" using ne by (simp only: cell [OF rc])
      show "\<not> (?arr ! r ! j = False)" if "j < length (columns df1)" "j \<noteq> c" for j
        using eq [OF rc(1) that(1)] that(2) by (simp only: cell [OF rc(1) that(1)]) simp
    qed
    then show ?thesis by (simp only: row [OF rc(1)] list.map)
  qed
  have "where_false ?arr = concat (map ?g [0 ..< length (rows df1)])"
    by (simp only: where_false_def len)
  also have "\<dots> = ?g r"
    using rc(1) other by (rule concat_map_single)
  finally show ?thesis by (simp only: this_row)
qed

lemmas table_defs = shape_def iloc_def column_at_def loc_def well_formed_def

lemmas diff_defs =
  get_unequal_cells_def where_false_def array_eq_def values_of_def fillna_def result_type_def

lemma to_double_two_power_53_plus_1: "to_double (2 ^ 53 + 1) = 2 ^ 53"
proof -
  have "excess (2 ^ 53 + 1) = Suc (excess ((2 ^ 53 + 1) div 2))"
    by (subst excess.simps) simp
  also have "excess ((2 ^ 53 + 1) div 2) = 0"
    by (subst excess.simps) simp
  finally have e: "excess (2 ^ 53 + 1) = 1" by simp
  have n: "nat \<bar>2 ^ 53 + 1 :: int\<bar> = 2 ^ 53 + 1" by simp
  show ?thesis
    unfolding to_double_def n Let_def e by simp
qed

lemma to_double_two_power_53: "to_double (2 ^ 53) = 2 ^ 53"
proof -
  have "excess (2 ^ 53) = Suc (excess (2 ^ 53 div 2))"
    by (subst excess.simps) simp
  also have "excess (2 ^ 53 div 2) = 0"
    by (subst excess.simps) simp
  finally have e: "excess (2 ^ 53) = 1" by simp
  have n: "nat \<bar>2 ^ 53 :: int\<bar> = 2 ^ 53" by simp
  show ?thesis
    unfolding to_double_def n Let_def e by simp
qed

lemma to_double_numerals:
  "to_double 9007199254740992 = 9007199254740992"
  "to_double 9007199254740993 = 9007199254740992"
  using to_double_two_power_53 to_double_two_power_53_plus_1 by simp_all

lemma float64_hides_difference:
  "well_formed wide_table \<and> well_formed wide_table_plus_one
   \<and> iloc wide_table 0 0 = Inr (PInt (2 ^ 53))
   \<and> iloc wide_table_plus_one 0 0 = Inr (PInt (2 ^ 53 + 1))
   \<and> get_unequal_cells wide_table wide_table_plus_one False = Inr ([], None)"
  by (simp add: diff_defs wide_table_def wide_table_plus_one_def table_defs in_int64_def
      to_double_numerals)

theorem single_difference_counterexample:
  "shape missing_table = shape zero_table
   \<and> iloc missing_table 0 0 = iloc zero_table 0 0
   \<and> iloc missing_table 0 1 = Inr PNaN
   \<and> iloc zero_table 0 1 = Inr (PInt 0)
   \<and> get_unequal_cells missing_table zero_table False = Inr ([], None)"
  by (simp add: diff_defs missing_table_def zero_table_def table_defs to_double_safe)

text \<open>
  C3, as the code has it. Cells are compared after \<open>fillna(0)\<close>, so a cell that is
  missing in one table and 0 in the other is no difference and the claim fails as stated.
  For two well-formed tables of the same shape, with integers below \<open>2^53\<close> in absolute
  value, whose cells are the same everywhere but at the position \<open>(r, c)\<close>, where the
  two cells differ in value once a missing cell counts as the number 0,
  \<open>get_unequal_cells\<close> returns the one-element list \<open>[(r, c)]\<close>, with or without the
  provenance log.
\<close>

theorem single_difference:
  assumes "well_formed df1" "well_formed df2" "shape df1 = shape df2"
    and "safe_integers df1" "safe_integers df2"
    and "iloc df1 r c = Inr a" "iloc df2 r c = Inr b"
    and "compared_value a \<noteq> compared_value b"
    and "\<forall>i j. (i, j) \<noteq> (r, c) \<longrightarrow> iloc df1 i j = iloc df2 i j"
  shows "\<exists>p. get_unequal_cells df1 df2 provenance = Inr ([(r, c)], p)"
proof -
  from iloc_Inr [OF assms(6)] have rc: "r < length (rows df1)" "c < length (columns df1)"
    and a: "a = rows df1 ! r ! c" by simp_all
  from iloc_Inr [OF assms(7)] have b: "b = rows df2 ! r ! c" by simp
  have "where_false
     (array_eq (values_of (fillna (PInt 0) df1)) (values_of (fillna (PInt 0) df2)))
     = [(r, c)]"
  proof (rule single_difference_indices [OF assms(1-5) rc])
    from assms(8) a b
    show "compared_value (rows df1 ! r ! c) \<noteq> compared_value (rows df2 ! r ! c)" by simp
    show "rows df1 ! i ! j = rows df2 ! i ! j"
      if "i < length (rows df1)" "j < length (columns df1)" "(i, j) \<noteq> (r, c)" for i j
    proof -
      from that assms(3) have "i < length (rows df2)" "j < length (columns df2)"
        by (simp_all add: shape_def)
      with that assms(1,2) have "iloc df1 i j = Inr (rows df1 ! i ! j)"
        "iloc df2 i j = Inr (rows df2 ! i ! j)"
        by (simp_all add: iloc_in_range)
      with assms(9) that(3) show ?thesis by auto
    qed
  qed
  with get_unequal_cells_returns [OF assms(1-3), of provenance]
  show ?thesis by (simp only:)
qed

theorem single_difference_witness:
  "well_formed original_table \<and> well_formed modified_table
   \<and> shape original_table = shape modified_table
   \<and> safe_integers original_table \<and> safe_integers modified_table
   \<and> iloc original_table 0 2 = Inr (PStr ''MR'')
   \<and> iloc modified_table 0 2 = Inr (PStr ''CT'')
   \<and> compared_value (PStr ''MR'') \<noteq> compared_value (PStr ''CT'')
   \<and> iloc original_table 0 0 = iloc modified_table 0 0
   \<and> iloc original_table 0 1 = iloc modified_table 0 1
   \<and> (\<exists>p. get_unequal_cells original_table modified_table True = Inr ([(0, 2)], p))"
proof -
  have wf: "well_formed original_table" "well_formed modified_table"
      "shape original_table = shape modified_table"
    by (simp_all add: original_table_def modified_table_def table_defs in_int64_def)
  have safe: "safe_integers original_table" "safe_integers modified_table"
    by (simp_all add: original_table_def modified_table_def safe_integers_def)
  have a: "iloc original_table 0 2 = Inr (PStr ''MR'')"
    and b: "iloc modified_table 0 2 = Inr (PStr ''CT'')"
    by (simp_all add: original_table_def modified_table_def iloc_def)
  have ne: "compared_value (PStr ''MR'') \<noteq> compared_value (PStr ''CT'')" by simp
  have eq: "iloc original_table 0 0 = iloc modified_table 0 0"
      "iloc original_table 0 1 = iloc modified_table 0 1"
    by (simp_all add: original_table_def modified_table_def iloc_def)
  have others: "\<forall>i j. (i, j) \<noteq> (0, 2) \<longrightarrow> iloc original_table i j = iloc modified_table i j"
  proof (intro allI impI)
    fix i j :: nat
    assume "(i, j) \<noteq> (0, 2)"
    then show "iloc original_table i j = iloc modified_table i j"
      by (cases "i = 0"; cases "j = 0"; cases "j = 1"; cases "j = 2")
        (simp_all add: original_table_def modified_table_def iloc_def)
  qed
  from single_difference [OF wf safe a b ne others, of True] wf safe a b ne eq
  show ?thesis by simp
qed

text \<open>
  C10. When \<open>get_unequal_cells\<close> returns, a position whose cell is missing (not-a-number
  or \<open>None\<close>) in one of the two tables and the number 0 in the other is not among the
  indices returned.
\<close>

theorem missing_equals_zero:
  assumes "get_unequal_cells df1 df2 provenance = Inr (indices, p)"
    and "iloc df1 r c = Inr a" "iloc df2 r c = Inr b"
    and "(isna a \<and> b = PInt 0) \<or> (a = PInt 0 \<and> isna b)"
  shows "(r, c) \<notin> set indices"
proof -
  from iloc_Inr [OF assms(2)] iloc_Inr [OF assms(3)]
  have ab: "a = rows df1 ! r ! c" "b = rows df2 ! r ! c" by simp_all
  from cell_compare_missing_zero [OF assms(4), of "values_dtype df1" "values_dtype df2"] ab
  have "cell_compare (values_dtype df1) (values_dtype df2) (rows df1 ! r ! c) (rows df2 ! r ! c)"
    by simp
  then have "(r, c) \<notin> set (where_false
      (array_eq (values_of (fillna (PInt 0) df1)) (values_of (fillna (PInt 0) df2))))"
    by (simp only: in_where_false_comparison) simp
  with get_unequal_cells_Inr [OF assms(1)] show ?thesis
    by simp
qed

theorem missing_equals_zero_witness:
  "get_unequal_cells missing_table zero_table True = Inr ([], Some [])
   \<and> iloc missing_table 0 1 = Inr PNaN
   \<and> iloc zero_table 0 1 = Inr (PInt 0)
   \<and> isna PNaN
   \<and> (0, 1) \<notin> set ([] :: (nat \<times> nat) list)"
proof -
  have g: "get_unequal_cells missing_table zero_table True = Inr ([], Some [])"
    by (simp add: diff_defs missing_table_def zero_table_def table_defs to_double_safe)
  have a: "iloc missing_table 0 1 = Inr PNaN" and b: "iloc zero_table 0 1 = Inr (PInt 0)"
    by (simp_all add: missing_table_def zero_table_def table_defs)
  have d: "(isna PNaN \<and> PInt 0 = PInt 0) \<or> (PNaN = PInt 0 \<and> isna (PInt 0))" by simp
  from missing_equals_zero [OF g a b d] g a b show ?thesis by simp
qed

section \<open>Properties of the change validator\<close>

lemma cell_result_Inr:
  "cell_result df pair = Inr (b, ms) \<Longrightarrow>
   \<exists>v column. iloc df (fst pair) (snd pair) = Inr v \<and> column_at df (snd pair) = Inr column
     \<and> change_checker v column [] = Inr (b, ms)"
  by (simp add: cell_result_def split: sum.splits)

lemma cell_result_cases:
  assumes "cell_result df pair = Inr (b, ms)"
  shows "(b \<and> ms = []) \<or> (\<not> b \<and> (\<exists>m. ms = [m]))"
proof -
  from cell_result_Inr [OF assms] obtain v column where
    "change_checker v column [] = Inr (b, ms)" by blast
  with change_checker_cases [of v column "[]"] show ?thesis by auto
qed

lemma check_loop_result:
  "check_loop indices_list df msgs = Inr (valid, msgs') \<Longrightarrow>
   valid = map (\<lambda>pair. \<not> rejected df pair) indices_list
   \<and> msgs' = msgs @ concat (map (cell_messages df) indices_list)
   \<and> (\<forall>pair \<in> set indices_list. \<exists>b ms. cell_result df pair = Inr (b, ms))"
proof (induction indices_list arbitrary: msgs valid msgs')
  case Nil
  then show ?case by simp
next
  case (Cons pair rest)
  from Cons.prems obtain v column b msgs1 valid1 where
    v: "iloc df (fst pair) (snd pair) = Inr v" and
    col: "column_at df (snd pair) = Inr column" and
    cc: "change_checker v column msgs = Inr (b, msgs1)" and
    rest: "check_loop rest df msgs1 = Inr (valid1, msgs')" and
    valid: "valid = b # valid1"
    by (auto split: sum.splits)
  from cc obtain ms where ms: "change_checker v column [] = Inr (b, ms)" "msgs1 = msgs @ ms"
    by (subst (asm) change_checker_queue) (auto split: sum.splits)
  with v col have res: "cell_result df pair = Inr (b, ms)"
    by (simp add: cell_result_def)
  then have "rejected df pair = (\<not> b)" "cell_messages df pair = ms"
    by (simp_all add: rejected_def cell_messages_def split: bool.splits)
  with Cons.IH [OF rest] valid ms(2) res show ?case
    by auto
qed

lemma check_loop_returns:
  "\<forall>pair \<in> set indices_list. \<exists>b ms. cell_result df pair = Inr (b, ms) \<Longrightarrow>
   \<exists>valid msgs'. check_loop indices_list df msgs = Inr (valid, msgs')"
proof (induction indices_list arbitrary: msgs)
  case Nil
  then show ?case by simp
next
  case (Cons pair rest)
  then obtain b ms where "cell_result df pair = Inr (b, ms)" by auto
  from cell_result_Inr [OF this] obtain v column where
    v: "iloc df (fst pair) (snd pair) = Inr v" "column_at df (snd pair) = Inr column"
    and "change_checker v column [] = Inr (b, ms)" by blast
  then have cc: "change_checker v column msgs = Inr (b, msgs @ ms)"
    by (subst change_checker_queue) simp
  from Cons obtain valid msgs' where "check_loop rest df (msgs @ ms) = Inr (valid, msgs')"
    by fastforce
  with v cc show ?case by simp
qed

lemma report_loop_result:
  "\<forall>pair \<in> set indices_list. \<exists>b ms. cell_result df pair = Inr (b, ms) \<Longrightarrow>
   report_loop (map (\<lambda>pair. \<not> rejected df pair) indices_list) indices_list df
       (concat (map (cell_messages df) indices_list) @ left)
     = Inr (concat (map (report_block df) (filter (rejected df) indices_list)), left)"
proof (induction indices_list)
  case Nil
  then show ?case by simp
next
  case (Cons pair rest)
  then obtain b ms where res: "cell_result df pair = Inr (b, ms)" by auto
  from cell_result_Inr [OF this] obtain v where v: "iloc df (fst pair) (snd pair) = Inr v"
    by blast
  from Cons have IH: "report_loop (map (\<lambda>pair. \<not> rejected df pair) rest) rest df
       (concat (map (cell_messages df) rest) @ left)
     = Inr (concat (map (report_block df) (filter (rejected df) rest)), left)"
    by simp
  from cell_result_cases [OF res] show ?case
  proof
    assume "b \<and> ms = []"
    with res have "\<not> rejected df pair" "cell_messages df pair = []"
      by (simp_all add: rejected_def cell_messages_def)
    with IH show ?thesis by simp
  next
    assume "\<not> b \<and> (\<exists>m. ms = [m])"
    then obtain m where m: "\<not> b" "ms = [m]" by blast
    with res v have "rejected df pair" "cell_messages df pair = [m]"
      "report_block df pair = ['''', row_line pair v, m]"
      by (simp_all add: rejected_def cell_messages_def report_block_def)
    with IH v show ?thesis by simp
  qed
qed

lemma validate_result:
  assumes "validate_on_unequal_cells indices_list df [] = Inr (res, left, out)"
  shows "left = [] \<and> res = (filter (rejected df) indices_list = [])
    \<and> out = (if res then []
             else report_header # concat (map (report_block df) (filter (rejected df) indices_list)))"
proof -
  from assms obtain valid msgs' where
    cl: "check_loop indices_list df [] = Inr (valid, msgs')"
    by (auto simp: validate_on_unequal_cells_def split: sum.splits)
  from check_loop_result [OF cl] have
    valid: "valid = map (\<lambda>pair. \<not> rejected df pair) indices_list" and
    msgs': "msgs' = concat (map (cell_messages df) indices_list)" and
    ok: "\<forall>pair \<in> set indices_list. \<exists>b ms. cell_result df pair = Inr (b, ms)"
    by simp_all
  have all: "list_all (\<lambda>b. b) valid = (filter (rejected df) indices_list = [])"
    by (simp add: valid list_all_iff filter_empty_conv)
  show ?thesis
  proof (cases "filter (rejected df) indices_list = []")
    case True
    then have "\<forall>pair \<in> set indices_list. \<not> rejected df pair"
      by (simp add: filter_empty_conv)
    with ok have "\<forall>pair \<in> set indices_list. cell_messages df pair = []"
      using cell_result_cases
      by (fastforce simp: rejected_def cell_messages_def)
    then have "msgs' = []" by (simp add: msgs')
    with assms cl all True show ?thesis
      by (simp add: validate_on_unequal_cells_def)
  next
    case False
    from report_loop_result [OF ok, of "[]"] valid msgs'
    have "report_loop valid indices_list df msgs'
      = Inr (concat (map (report_block df) (filter (rejected df) indices_list)), [])"
      by simp
    with assms cl all False show ?thesis
      by (auto simp: validate_on_unequal_cells_def)
  qed
qed

lemma validate_returns:
  assumes "\<forall>pair \<in> set indices_list. \<exists>b ms. cell_result df pair = Inr (b, ms)"
  shows "\<exists>res left out. validate_on_unequal_cells indices_list df [] = Inr (res, left, out)"
proof -
  from check_loop_returns [OF assms, of "[]"] obtain valid msgs' where
    cl: "check_loop indices_list df [] = Inr (valid, msgs')" by blast
  from check_loop_result [OF cl] report_loop_result [OF assms, of "[]"]
  have "report_loop valid indices_list df msgs'
      = Inr (concat (map (report_block df) (filter (rejected df) indices_list)), [])"
    by simp
  with cl show ?thesis
    by (cases "list_all (\<lambda>b. b) valid") (auto simp: validate_on_unequal_cells_def)
qed

lemma rejected_block:
  assumes "cell_result df pair = Inr (b, ms)" "rejected df pair"
  shows "\<exists>v m. iloc df (fst pair) (snd pair) = Inr v \<and> cell_result df pair = Inr (False, [m])
    \<and> report_block df pair = ['''', row_line pair v, m]"
proof -
  from assms have b: "\<not> b" by (simp add: rejected_def split: bool.splits)
  with cell_result_cases [OF assms(1)] obtain m where m: "ms = [m]" by blast
  from cell_result_Inr [OF assms(1)] obtain v where v: "iloc df (fst pair) (snd pair) = Inr v"
    by blast
  with assms(1) b m show ?thesis by (simp add: report_block_def)
qed

lemma validate_blocks:
  assumes "validate_on_unequal_cells indices_list df [] = Inr (res, left, out)"
    and "pair \<in> set indices_list" "rejected df pair"
  shows "\<exists>v m. iloc df (fst pair) (snd pair) = Inr v \<and> cell_result df pair = Inr (False, [m])
    \<and> report_block df pair = ['''', row_line pair v, m]"
proof -
  from assms(1) obtain valid msgs' where
    "check_loop indices_list df [] = Inr (valid, msgs')"
    by (auto simp: validate_on_unequal_cells_def split: sum.splits)
  from check_loop_result [OF this] assms(2) obtain b ms where
    "cell_result df pair = Inr (b, ms)" by blast
  from rejected_block [OF this assms(3)] show ?thesis .
qed

text \<open>
  C6. A call of \<open>change_checker\<close> that returns \<open>True\<close> leaves the message list as it
  was and one that returns \<open>False\<close> appends exactly one message. When
  \<open>validate_on_unequal_cells\<close> returns from the empty message list of a fresh process,
  the list is empty again, the result is \<open>True\<close> exactly when no cell is rejected, and on
  \<open>False\<close> the output is the header followed by one block per rejected cell, in the order
  of the indices, each block ending with the one message that this cell produced.
\<close>

theorem diagnostic_pairing:
  "(change_checker v column msgs = Inr (b, msgs') \<longrightarrow>
      (if b then msgs' = msgs else (\<exists>m. msgs' = msgs @ [m])))
   \<and> (validate_on_unequal_cells indices_list changed_df ERROR_MESSAGES = Inr (res, left, out) \<longrightarrow>
        left = []
        \<and> res = (filter (rejected changed_df) indices_list = [])
        \<and> out = (if res then []
                 else report_header #
                   concat (map (report_block changed_df) (filter (rejected changed_df) indices_list)))
        \<and> (\<forall>pair \<in> set indices_list. rejected changed_df pair \<longrightarrow>
             (\<exists>v m. iloc changed_df (fst pair) (snd pair) = Inr v
                \<and> cell_result changed_df pair = Inr (False, [m])
                \<and> report_block changed_df pair = ['''', row_line pair v, m])))"
proof (intro conjI impI)
  assume "change_checker v column msgs = Inr (b, msgs')"
  with change_checker_cases [of v column msgs]
  show "if b then msgs' = msgs else (\<exists>m. msgs' = msgs @ [m])"
    by auto
next
  assume a: "validate_on_unequal_cells indices_list changed_df ERROR_MESSAGES = Inr (res, left, out)"
  then have a': "validate_on_unequal_cells indices_list changed_df [] = Inr (res, left, out)"
    by (simp add: ERROR_MESSAGES_def)
  from validate_result [OF a'] show "left = []"
    and "res = (filter (rejected changed_df) indices_list = [])"
    and "out = (if res then []
                 else report_header #
                   concat (map (report_block changed_df) (filter (rejected changed_df) indices_list)))"
    by simp_all
  show "\<forall>pair \<in> set indices_list. rejected changed_df pair \<longrightarrow>
             (\<exists>v m. iloc changed_df (fst pair) (snd pair) = Inr v
                \<and> cell_result changed_df pair = Inr (False, [m])
                \<and> report_block changed_df pair = ['''', row_line pair v, m])"
    using validate_blocks [OF a'] by blast
qed

lemmas number_defs = str_int_def str_nat.simps digit_char_def

lemma review_validation:
  "validate_on_unequal_cells [(0, 0), (0, 2), (0, 3), (0, 4)] review_modified_table []
    = Inr (False, [],
        [report_header,
         '''', ''Row 1, Column 1, \"124\"'', acquisition_id_message,
         '''', ''Row 1, Column 3, \"xyz\"'', drop_down_message,
         '''', ''Row 1, Column 4, \"yes\"'', boolean_message])"
  by (simp add: validate_on_unequal_cells_def review_modified_table_def iloc_def column_at_def
      change_checker_def field_defs row_line_def number_defs)

theorem diagnostic_pairing_witness:
  "change_checker (PStr ''yes'') ''ignore'' [acquisition_id_message]
      = Inr (False, [acquisition_id_message, boolean_message])
   \<and> validate_on_unequal_cells [(0, 0), (0, 2), (0, 3), (0, 4)] review_modified_table ERROR_MESSAGES
      = Inr (False, [],
          [report_header,
           '''', ''Row 1, Column 1, \"124\"'', acquisition_id_message,
           '''', ''Row 1, Column 3, \"xyz\"'', drop_down_message,
           '''', ''Row 1, Column 4, \"yes\"'', boolean_message])
   \<and> filter (rejected review_modified_table) [(0, 0), (0, 2), (0, 3), (0, 4)]
      = [(0, 0), (0, 2), (0, 3)]"
proof -
  have c: "change_checker (PStr ''yes'') ''ignore'' [acquisition_id_message]
      = Inr (False, [acquisition_id_message, boolean_message])"
    by (simp add: change_checker_def field_defs)
  have v: "validate_on_unequal_cells [(0, 0), (0, 2), (0, 3), (0, 4)] review_modified_table
      ERROR_MESSAGES
      = Inr (False, [],
          [report_header,
           '''', ''Row 1, Column 1, \"124\"'', acquisition_id_message,
           '''', ''Row 1, Column 3, \"xyz\"'', drop_down_message,
           '''', ''Row 1, Column 4, \"yes\"'', boolean_message])"
    by (simp only: ERROR_MESSAGES_def review_validation)
  have r: "filter (rejected review_modified_table) [(0, 0), (0, 2), (0, 3), (0, 4)]
      = [(0, 0), (0, 2), (0, 3)]"
    by (simp add: rejected_def cell_result_def review_modified_table_def iloc_def column_at_def
        change_checker_def field_defs)
  from diagnostic_pairing [of "PStr ''yes''" "''ignore''" "[acquisition_id_message]" False
      "[acquisition_id_message, boolean_message]" "[(0, 0), (0, 2), (0, 3), (0, 4)]"
      review_modified_table False "[]"] c v r
  show ?thesis by simp
qed

section \<open>Properties of the pipeline\<close>

lemma conforms_str_or_number:
  "conforms d v \<Longrightarrow> v \<noteq> PNone \<Longrightarrow> str_or_number v"
  by (cases v) (simp_all add: in_int64_converts)

lemma well_formed_conforms:
  "well_formed df \<Longrightarrow> r < length (rows df) \<Longrightarrow> c < length (rows df ! r) \<Longrightarrow>
   conforms (values_dtype df) (rows df ! r ! c)"
  by (simp add: well_formed_def list_all_length)

lemma unequal_cell_result:
  assumes "get_unequal_cells df1 df2 provenance = Inr (indices, p)"
    and "well_formed df2" "PNone \<notin> set (concat (rows df2))"
    and "pair \<in> set indices"
  shows "\<exists>b ms. cell_result df2 pair = Inr (b, ms)"
proof -
  obtain r c where pair: "pair = (r, c)" by (cases pair)
  from get_unequal_cells_Inr [OF assms(1)] assms(4) pair
  have "(r, c) \<in> set (where_false
      (array_eq (values_of (fillna (PInt 0) df1)) (values_of (fillna (PInt 0) df2))))"
    by simp
  then have r: "r < length (rows df2)" and c: "c < length (rows df2 ! r)"
    by (simp_all only: in_where_false_comparison)
  with assms(2) have c': "c < length (columns df2)"
    by (simp add: well_formed_row)
  from r c have "rows df2 ! r ! c \<in> set (concat (rows df2))"
    by (auto intro!: bexI [of _ "rows df2 ! r"])
  with assms(3) have "rows df2 ! r ! c \<noteq> PNone" by auto
  with well_formed_conforms [OF assms(2) r c] have ok: "str_or_number (rows df2 ! r ! c)"
    by (rule conforms_str_or_number)
  from change_checker_cases [of "rows df2 ! r ! c" "columns df2 ! c" "[]"]
    change_checker_no_raise [OF ok, of "columns df2 ! c" "[]" TypeError]
    change_checker_no_raise [OF ok, of "columns df2 ! c" "[]" OverflowError]
  have "\<exists>b ms. change_checker (rows df2 ! r ! c) (columns df2 ! c) [] = Inr (b, ms)"
    by blast
  with r c c' pair show ?thesis
    by (simp add: cell_result_def iloc_def column_at_def)
qed

text \<open>
  C5. When the diff returns and one of its cells is rejected by the field rules, the run
  makes no remote call. For a well-formed modified table without \<open>None\<close> cells (as
  \<open>read_csv\<close> delivers it) the run also raises nothing and prints the header, then for each
  rejected cell, in order, its block (1-indexed row and column, the value, the message),
  then \<open>Exiting...\<close>.
\<close>

theorem apply_gate:
  assumes "get_unequal_cells df_original df_modified True = Inr (unequal, prov)"
    and "\<exists>pair \<in> set unequal. rejected df_modified pair"
  shows "calls (main fw df_original df_modified) = []
    \<and> (well_formed df_modified \<longrightarrow> PNone \<notin> set (concat (rows df_modified)) \<longrightarrow>
         raised (main fw df_original df_modified) = None
         \<and> stdout (main fw df_original df_modified) =
             report_header #
             concat (map (report_block df_modified) (filter (rejected df_modified) unequal))
             @ [''Exiting...''])"
proof (intro conjI impI)
  from assms(2) have ne: "filter (rejected df_modified) unequal \<noteq> []"
    by (simp add: filter_empty_conv)
  show "calls (main fw df_original df_modified) = []"
  proof (cases "validate_on_unequal_cells unequal df_modified []")
    case (Inl e)
    with assms(1) show ?thesis by (simp add: main_def ERROR_MESSAGES_def)
  next
    case (Inr t)
    then obtain res left out where
      t: "validate_on_unequal_cells unequal df_modified [] = Inr (res, left, out)"
      by (cases t) auto
    from validate_result [OF t] ne have "\<not> res" by simp
    with assms(1) t show ?thesis by (simp add: main_def ERROR_MESSAGES_def)
  qed
  assume wf: "well_formed df_modified" and nn: "PNone \<notin> set (concat (rows df_modified))"
  have "\<forall>pair \<in> set unequal. \<exists>b ms. cell_result df_modified pair = Inr (b, ms)"
    using unequal_cell_result [OF assms(1) wf nn] by blast
  from validate_returns [OF this] obtain res left out where
    t: "validate_on_unequal_cells unequal df_modified [] = Inr (res, left, out)"
    by blast
  from validate_result [OF t] ne have res: "\<not> res"
    "out = report_header #
       concat (map (report_block df_modified) (filter (rejected df_modified) unequal))"
    by simp_all
  with assms(1) t show "raised (main fw df_original df_modified) = None"
    by (simp add: main_def ERROR_MESSAGES_def)
  from res assms(1) t show "stdout (main fw df_original df_modified) =
             report_header #
             concat (map (report_block df_modified) (filter (rejected df_modified) unequal))
             @ [''Exiting...'']"
    by (simp add: main_def ERROR_MESSAGES_def)
qed

theorem apply_gate_witness:
  "get_unequal_cells review_original_table review_modified_table True
      = Inr ([(0, 0), (0, 2), (0, 3), (0, 4)],
          Some [(PInt 123, PInt 124, 0, ''acquisition.id''),
                (PStr ''MR'', PStr ''xyz'', 0, ''modality''),
                (PStr ''False'', PStr ''yes'', 0, ''ignore''),
                (PStr ''t1'', PStr ''t1w'', 0, ''info_SeriesDescription'')])
   \<and> rejected review_modified_table (0, 0)
   \<and> \<not> rejected review_modified_table (0, 4)
   \<and> well_formed review_modified_table
   \<and> PNone \<notin> set (concat (rows review_modified_table))
   \<and> calls (main store review_original_table review_modified_table) = []
   \<and> raised (main store review_original_table review_modified_table) = None
   \<and> stdout (main store review_original_table review_modified_table) =
        [report_header,
         '''', ''Row 1, Column 1, \"124\"'', acquisition_id_message,
         '''', ''Row 1, Column 3, \"xyz\"'', drop_down_message,
         '''', ''Row 1, Column 4, \"yes\"'', boolean_message,
         ''Exiting...'']"
proof -
  have g: "get_unequal_cells review_original_table review_modified_table True
      = Inr ([(0, 0), (0, 2), (0, 3), (0, 4)],
          Some [(PInt 123, PInt 124, 0, ''acquisition.id''),
                (PStr ''MR'', PStr ''xyz'', 0, ''modality''),
                (PStr ''False'', PStr ''yes'', 0, ''ignore''),
                (PStr ''t1'', PStr ''t1w'', 0, ''info_SeriesDescription'')])"
    by (simp add: diff_defs review_original_table_def review_modified_table_def table_defs)
  have r: "rejected review_modified_table (0, 0)" "\<not> rejected review_modified_table (0, 2) \<Longrightarrow> False"
      "\<not> rejected review_modified_table (0, 3) \<Longrightarrow> False" "\<not> rejected review_modified_table (0, 4)"
    by (simp_all add: rejected_def cell_result_def review_modified_table_def iloc_def column_at_def
        change_checker_def field_defs)
  then have e: "\<exists>pair \<in> set [(0, 0), (0, 2), (0, 3), (0, 4)]. rejected review_modified_table pair"
    by simp
  have wf: "well_formed review_modified_table"
    "PNone \<notin> set (concat (rows review_modified_table))"
    by (simp_all add: review_modified_table_def well_formed_def in_int64_def)
  have b: "report_block review_modified_table (0, 0)
        = ['''', ''Row 1, Column 1, \"124\"'', acquisition_id_message]"
      "report_block review_modified_table (0, 2)
        = ['''', ''Row 1, Column 3, \"xyz\"'', drop_down_message]"
      "report_block review_modified_table (0, 3)
        = ['''', ''Row 1, Column 4, \"yes\"'', boolean_message]"
    by (simp_all add: report_block_def cell_result_def review_modified_table_def iloc_def
        column_at_def change_checker_def field_defs row_line_def number_defs)
  from apply_gate [OF g e, of store] g r wf b show ?thesis by auto
qed

section \<open>Properties of the update translator and applier\<close>






section \<open>The single-edit scenario\<close>

lemmas scenario_defs =
  original_table_def modified_table_def info_original_table_def info_modified_table_def
  store_def nifti_file_def dicom_file_def

lemma modality_diff:
  "get_unequal_cells original_table modified_table True
     = Inr ([(0, 2)], Some [(PStr ''MR'', PStr ''CT'', 0, ''modality'')])"
  by (simp add: diff_defs scenario_defs shape_def iloc_def column_at_def)

lemma modality_valid:
  "validate_on_unequal_cells [(0, 2)] modified_table [] = Inr (True, [], [])"
  by (simp add: validate_on_unequal_cells_def scenario_defs iloc_def column_at_def
      change_checker_def lower_char_def drop_down_bool_def drop_down_single_fields_def)

lemma modality_upload:
  "upload_pair modified_table (0, 2) store = Inr []"
  by (simp add: upload_pair_def scenario_defs iloc_def column_at_def loc_def
      str_int_def str_nat.simps digit_char_def)

lemma info_diff:
  "get_unequal_cells info_original_table info_modified_table True
     = Inr ([(0, 2)], Some [(PStr ''MR'', PStr ''CT'', 0, ''info_modality'')])"
  by (simp add: diff_defs scenario_defs shape_def iloc_def column_at_def)

lemma info_valid:
  "validate_on_unequal_cells [(0, 2)] info_modified_table [] = Inr (True, [], [])"
  by (simp add: validate_on_unequal_cells_def scenario_defs iloc_def column_at_def
      change_checker_def lower_char_def drop_down_bool_def drop_down_single_fields_def
      string_fields_def)

lemma info_upload:
  "upload_pair info_modified_table (0, 2) store
     = Inr [Update_info ''123'' \<lparr>fname = ''scan.nii.gz'', ftype = ''nifti''\<rparr>
              (Node ''modality'' (Leaf (PStr ''CT'')))]"
  by (simp add: upload_pair_def scenario_defs iloc_def column_at_def loc_def
      str_int_def str_nat.simps digit_char_def)

text \<open>
  C1. The code does not do what the claim says. On the original table with the one row
  (\<open>acquisition.id\<close> 123, \<open>type\<close> nifti, \<open>modality\<close> MR) and the copy with
  \<open>modality\<close> CT, the diff is the one cell, \<open>change_checker\<close> accepts it under its
  modality rule and nothing is reported, the column folds to \<open>{modality: "CT"}\<close>, and the
  run prints \<open>Changes appear to be valid! Uploading...\<close> and \<open>Done!\<close>; but it makes no
  remote call, where the claim has exactly one: \<open>upload_to_flywheel\<close> calls only for the
  top-level keys \<open>info\<close> and \<open>classification\<close> and drops this update. The same edit in
  a column named \<open>info_modality\<close> is uploaded: one call of \<open>update_info\<close> on the nifti
  file of entity 123 with \<open>{modality: "CT"}\<close>.
\<close>

theorem single_edit:
  "get_unequal_cells original_table modified_table True
     = Inr ([(0, 2)], Some [(PStr ''MR'', PStr ''CT'', 0, ''modality'')])
   \<and> validate_on_unequal_cells [(0, 2)] modified_table ERROR_MESSAGES = Inr (True, [], [])
   \<and> create_nested_fw_dict (split_on CHR ''_'' ''modality'') (PStr ''CT'')
     = Node ''modality'' (Leaf (PStr ''CT''))
   \<and> main store original_table modified_table
     = \<lparr>stdout = [''Changes appear to be valid! Uploading...'', ''Done!''],
        calls = [],
        written = Some [(PStr ''MR'', PStr ''CT'', 0, ''modality'')],
        raised = None\<rparr>
   \<and> main store info_original_table info_modified_table
     = \<lparr>stdout = [''Changes appear to be valid! Uploading...'', ''Done!''],
        calls = [Update_info ''123'' nifti_file (Node ''modality'' (Leaf (PStr ''CT'')))],
        written = Some [(PStr ''MR'', PStr ''CT'', 0, ''info_modality'')],
        raised = None\<rparr>"
proof (intro conjI)
  show "get_unequal_cells original_table modified_table True
     = Inr ([(0, 2)], Some [(PStr ''MR'', PStr ''CT'', 0, ''modality'')])"
    by (rule modality_diff)
  show "validate_on_unequal_cells [(0, 2)] modified_table ERROR_MESSAGES = Inr (True, [], [])"
    by (simp only: ERROR_MESSAGES_def modality_valid)
  show "create_nested_fw_dict (split_on CHR ''_'' ''modality'') (PStr ''CT'')
     = Node ''modality'' (Leaf (PStr ''CT''))"
    by simp
  show "main store original_table modified_table
     = \<lparr>stdout = [''Changes appear to be valid! Uploading...'', ''Done!''],
        calls = [],
        written = Some [(PStr ''MR'', PStr ''CT'', 0, ''modality'')],
        raised = None\<rparr>"
    by (simp add: main_def ERROR_MESSAGES_def modality_diff modality_valid modality_upload)
  show "main store info_original_table info_modified_table
     = \<lparr>stdout = [''Changes appear to be valid! Uploading...'', ''Done!''],
        calls = [Update_info ''123'' nifti_file (Node ''modality'' (Leaf (PStr ''CT'')))],
        written = Some [(PStr ''MR'', PStr ''CT'', 0, ''info_modality'')],
        raised = None\<rparr>"
    by (simp add: main_def ERROR_MESSAGES_def info_diff info_valid info_upload nifti_file_def)
qed

end
